theory Spec2Isabelle
  imports Main
begin

section \<open>Python values the handlers compute with\<close>

subsection \<open>Slicing\<close>

text \<open>
  Python's \<^verbatim>\<open>xs[start:stop]\<close> with step 1. Each bound is first adjusted against
  the length \<open>n\<close>: a negative bound counts from the end (\<open>i + n\<close>, and 0 when that is
  still negative), a bound beyond \<open>n\<close> becomes \<open>n\<close>. The slice is empty when the
  adjusted start is not below the adjusted stop. Nothing raises.
\<close>

definition adjust_index :: "int \<Rightarrow> int \<Rightarrow> int" where
  "adjust_index n i =
     (if i < 0 then (if i + n < 0 then 0 else i + n)
      else if n < i then n else i)"

definition py_slice :: "'a list \<Rightarrow> int \<Rightarrow> int \<Rightarrow> 'a list" where
  "py_slice xs start stop =
     (let n = int (length xs);
          lo = adjust_index n start;
          hi = adjust_index n stop
      in if lo < hi then take (nat (hi - lo)) (drop (nat lo) xs) else [])"

subsection \<open>Strings: \<^verbatim>\<open>str.rfind\<close>, \<^verbatim>\<open>str.lower\<close>, \<^verbatim>\<open>Path.suffix\<close>\<close>

text \<open>
  \<open>find_last c s\<close> is the greatest index of \<open>c\<close> in \<open>s\<close>; \<^verbatim>\<open>s.rfind(c)\<close> is that
  index, or -1 when \<open>c\<close> does not occur.
\<close>

primrec find_last :: "'a \<Rightarrow> 'a list \<Rightarrow> nat option" where
  "find_last c [] = None"
| "find_last c (x # xs) =
     (case find_last c xs of
        Some i \<Rightarrow> Some (Suc i)
      | None \<Rightarrow> if x = c then Some 0 else None)"

definition rfind :: "string \<Rightarrow> char \<Rightarrow> int" where
  "rfind s c = (case find_last c s of None \<Rightarrow> - 1 | Some i \<Rightarrow> int i)"

text \<open>
  \<^verbatim>\<open>str.lower\<close> on the letters that matter to the listing filter: \<open>A\<close>..\<open>Z\<close>
  move to \<open>a\<close>..\<open>z\<close>, every other character is left as it is here. Python lowers
  further letters outside ASCII as well; none of them becomes a dot or one of the
  letters of \<^verbatim>\<open>.txt\<close>, \<^verbatim>\<open>.md\<close>, \<^verbatim>\<open>.pdf\<close>, so the outcome of the listing filter
  is the same.
\<close>

definition lower_char :: "char \<Rightarrow> char" where
  "lower_char c =
     (case map_of (zip ''ABCDEFGHIJKLMNOPQRSTUVWXYZ'' ''abcdefghijklmnopqrstuvwxyz'') c of
        Some d \<Rightarrow> d
      | None \<Rightarrow> c)"

definition lower :: "string \<Rightarrow> string" where
  "lower s = map lower_char s"

text \<open>
  \<^verbatim>\<open>PurePath.suffix\<close> of the final path component \<open>name\<close>, as pathlib defines
  it up to Python 3.12:
  \<^verbatim>\<open>i = name.rfind('.'); return name[i:] if 0 < i < len(name) - 1 else ''\<close>.
\<close>

definition suffix :: "string \<Rightarrow> string" where
  "suffix name =
     (let i = rfind name CHR ''.''
      in if 0 < i \<and> i < int (length name) - 1 then drop (nat i) name else [])"

subsection \<open>True division of integers\<close>

text \<open>
  \<^verbatim>\<open>a / b\<close> on two Python integers (\<open>b\<close> not 0) is the quotient rounded to the
  nearest double, and raises \<^verbatim>\<open>OverflowError\<close> when that is not a finite double:
  when the magnitude of the quotient reaches \<open>2 ^ 1024 - 2 ^ 970\<close>, half a unit in
  the last place above the largest double.
\<close>

definition true_division_overflows :: "int \<Rightarrow> int \<Rightarrow> bool" where
  "true_division_overflows a b = ((2 ^ 1024 - 2 ^ 970) * \<bar>b\<bar> \<le> \<bar>a\<bar>)"

section \<open>The filesystem and the summaries database\<close>

text \<open>
  A \<^verbatim>\<open>pathlib.Path\<close> as the handlers use it: its \<^verbatim>\<open>str()\<close> and its \<^verbatim>\<open>name\<close>.
\<close>

record py_path =
  path_str :: string
  path_name :: string

text \<open>
  What \<^verbatim>\<open>iterdir()\<close> yields for one immediate entry \<open>f\<close> of a directory:
  \<^verbatim>\<open>f.name\<close>, \<^verbatim>\<open>str(f)\<close> and \<^verbatim>\<open>f.is_dir()\<close>. The same three fields make the
  dictionary \<^verbatim>\<open>list_directory\<close> returns for a kept entry.
\<close>

record file_info =
  name :: string
  entry_path :: string
  is_dir :: bool

text \<open>
  An \<^verbatim>\<open>OSError\<close> (or a subclass of it) as the operating system reports it: errno,
  message and file name. Its \<^verbatim>\<open>str()\<close> is \<^verbatim>\<open>[Errno n] message: \<close> followed by the
  \<^verbatim>\<open>repr\<close> of the file name.
\<close>

datatype os_error = OS_error nat string string

text \<open>
  A filesystem location: a file that reads to a decoded text
  (\<^verbatim>\<open>read_text(encoding="utf-8", errors="ignore")\<close> cannot fail on the bytes), a
  file whose opening or reading raises the given error, or a directory that can be
  listed, with its immediate entries in \<^verbatim>\<open>iterdir\<close> order.
\<close>

datatype node =
    File string
  | Unreadable os_error
  | Dir "file_info list"

text \<open>
  What \<^verbatim>\<open>path.exists()\<close> meets at a path: nothing there (it returns \<^verbatim>\<open>False\<close>), an
  error of the operating system other than the few that \<^verbatim>\<open>exists()\<close> takes for
  absence (it raises, for instance errno 36 for a name longer than the filesystem
  allows), or a location (it returns \<^verbatim>\<open>True\<close>).
\<close>

datatype location =
    Absent
  | Stat_fails os_error
  | Present node

text \<open>One row of the table \<^verbatim>\<open>summaries\<close>; \<open>document_id\<close> is its primary key.\<close>

record summary_row =
  document_id :: string
  row_filename :: string
  summary :: string
  status :: string

text \<open>
  The state the handlers see: \<open>fs\<close> maps \<^verbatim>\<open>str(path)\<close> to what is found there;
  \<open>db\<close> is the table \<^verbatim>\<open>summaries\<close> in insertion order (\<open>None\<close>: the table has not
  been created).
\<close>

record world =
  fs :: "string \<Rightarrow> location"
  db :: "summary_row list option"

text \<open>
  The detail of an HTTP exception: a fixed text, or
  \<^verbatim>\<open>f"Error reading file: {str(e)}"\<close> for the error \<open>e\<close> that was caught.
\<close>

datatype detail =
    Text string
  | Error_reading_file os_error

text \<open>
  How a request can fail: an \<^verbatim>\<open>HTTPException\<close> the handler raises (status and
  detail), a body the request model rejects, and the exceptions no handler catches,
  which the framework answers with status 500.
\<close>

datatype error =
    HTTPException nat detail
  | ValidationError string
  | OSError os_error
  | OverflowError
  | OperationalError
  | IntegrityError

text \<open>
  \<^verbatim>\<open>path.read_text(...)\<close> and \<^verbatim>\<open>path.iterdir()\<close> at a location, \<open>p\<close> being
  \<^verbatim>\<open>str(path)\<close>: reading a directory raises \<^verbatim>\<open>IsADirectoryError\<close> (errno 21),
  listing a file raises \<^verbatim>\<open>NotADirectoryError\<close> (errno 20).
\<close>

fun read_text :: "string \<Rightarrow> node \<Rightarrow> os_error + string" where
  "read_text p (File t) = Inr t"
| "read_text p (Unreadable e) = Inl e"
| "read_text p (Dir es) = Inl (OS_error 21 ''Is a directory'' p)"

fun iterdir :: "string \<Rightarrow> node \<Rightarrow> os_error + file_info list" where
  "iterdir p (Dir es) = Inr es"
| "iterdir p (File t) = Inl (OS_error 20 ''Not a directory'' p)"
| "iterdir p (Unreadable e) = Inl (OS_error 20 ''Not a directory'' p)"

section \<open>Schema initialisation\<close>

text \<open>\<^verbatim>\<open>CREATE TABLE IF NOT EXISTS summaries (document_id TEXT PRIMARY KEY, ...)\<close>.\<close>

definition init_db :: "world \<Rightarrow> world" where
  "init_db w = (case db w of None \<Rightarrow> w\<lparr>db := Some []\<rparr> | Some t \<Rightarrow> w)"

section \<open>Request models\<close>

text \<open>
  The request bodies after validation. A request's \<^verbatim>\<open>path\<close> string is carried as
  the \<^verbatim>\<open>Path\<close> the handler builds from it first thing.
\<close>

record list_directory_request =
  ld_path :: py_path

record read_document_chunk_request =
  rq_path :: py_path
  rq_offset :: int
  rq_chunk_size :: int

record save_summary_request =
  rq_document_id :: string
  rq_filename :: string
  rq_summary :: string
  rq_status :: string

text \<open>
  A JSON request body after parsing, and \<^verbatim>\<open>SaveSummaryRequest\<close>'s validation of it:
  the four fields are required and typed \<^verbatim>\<open>str\<close>; the model declares no further
  constraint on any of them. (A value that is not a JSON string is rejected here, as
  pydantic 2 does; pydantic 1 would turn a number into a string and accept it.)
\<close>

datatype json =
    JNull
  | JBool bool
  | JNum int
  | JStr string
  | JArr "json list"
  | JObj "(string \<times> json) list"

definition str_field :: "(string \<rightharpoonup> json) \<Rightarrow> string \<Rightarrow> error + string" where
  "str_field body k =
     (case body k of
        None \<Rightarrow> Inl (ValidationError (k @ '': Field required''))
      | Some (JStr s) \<Rightarrow> Inr s
      | Some _ \<Rightarrow> Inl (ValidationError (k @ '': Input should be a valid string'')))"

definition SaveSummaryRequest :: "(string \<rightharpoonup> json) \<Rightarrow> error + save_summary_request" where
  "SaveSummaryRequest body =
     (case str_field body ''document_id'' of Inl e \<Rightarrow> Inl e | Inr d \<Rightarrow>
      case str_field body ''filename'' of Inl e \<Rightarrow> Inl e | Inr f \<Rightarrow>
      case str_field body ''summary'' of Inl e \<Rightarrow> Inl e | Inr s \<Rightarrow>
      case str_field body ''status'' of Inl e \<Rightarrow> Inl e | Inr st \<Rightarrow>
        Inr \<lparr>rq_document_id = d, rq_filename = f, rq_summary = s, rq_status = st\<rparr>)"

section \<open>Tool: \<^verbatim>\<open>list_directory\<close>\<close>

record list_directory_result =
  dir_path :: string
  files :: "file_info list"

definition list_directory ::
  "world \<Rightarrow> list_directory_request \<Rightarrow> (error + list_directory_result) \<times> world" where
  "list_directory w req =
     (let directory = ld_path req in
      case fs w (path_str directory) of
        Stat_fails e \<Rightarrow> (Inl (OSError e), w)
      | Absent \<Rightarrow> (Inl (HTTPException 404 (Text ''Directory not found'')), w)
      | Present nd \<Rightarrow>
          (case iterdir (path_str directory) nd of
             Inl e \<Rightarrow> (Inl (OSError e), w)
           | Inr es \<Rightarrow>
               (Inr \<lparr>dir_path = path_str directory,
                     files =
                       map (\<lambda>f. \<lparr>name = name f, entry_path = entry_path f, is_dir = is_dir f\<rparr>)
                         (filter (\<lambda>f. lower (suffix (name f)) \<in> set [''.txt'', ''.md'', ''.pdf'']) es)\<rparr>,
                w)))"

section \<open>Tool: \<^verbatim>\<open>read_document_chunk\<close>\<close>

text \<open>
  The \<^verbatim>\<open>progress\<close> string: the literal \<^verbatim>\<open>"0%"\<close> for an empty text, otherwise
  \<^verbatim>\<open>f"{round((end/total_len)*100, 1)}%"\<close>, a floating-point rendering that is kept
  symbolic here as the pair it is computed from. Of its steps only the division
  \<^verbatim>\<open>end/total_len\<close> can raise (the product, the rounding and the formatting accept
  every double, the infinities included); it is evaluated while the result is
  built, outside the handler's \<^verbatim>\<open>try\<close>, so its \<^verbatim>\<open>OverflowError\<close> is not caught.
\<close>

datatype progress_text =
    Literal string
  | Rounded_percent int int

record chunk_result =
  path :: string
  filename :: string
  offset :: int
  next_offset :: "int option"
  chunk_size :: int
  total_length :: int
  progress :: progress_text
  eof :: bool
  content :: string

definition read_document_chunk ::
  "world \<Rightarrow> read_document_chunk_request \<Rightarrow> (error + chunk_result) \<times> world" where
  "read_document_chunk w req =
     (let p = rq_path req in
      case fs w (path_str p) of
        Stat_fails e \<Rightarrow> (Inl (OSError e), w)
      | Absent \<Rightarrow> (Inl (HTTPException 404 (Text (''File not found: '' @ path_str p))), w)
      | Present nd \<Rightarrow>
          (case read_text (path_str p) nd of
             Inl e \<Rightarrow> (Inl (HTTPException 500 (Error_reading_file e)), w)
           | Inr text \<Rightarrow>
               (let total_len = int (length text);
                    start = max 0 (rq_offset req);
                    end_idx = min total_len (start + rq_chunk_size req);
                    chunk = py_slice text start end_idx;
                    at_eof = (total_len \<le> end_idx)
                in if 0 < total_len \<and> true_division_overflows end_idx total_len
                   then (Inl OverflowError, w)
                   else
                   (Inr \<lparr>path = path_str p,
                         filename = path_name p,
                         offset = start,
                         next_offset = (if \<not> at_eof then Some end_idx else None),
                         chunk_size = int (length chunk),
                         total_length = total_len,
                         progress =
                           (if 0 < total_len then Rounded_percent end_idx total_len
                            else Literal ''0%''),
                         eof = at_eof,
                         content = chunk\<rparr>,
                    w))))"

section \<open>Tool: \<^verbatim>\<open>save_summary_to_db\<close>\<close>

text \<open>
  SQLite's \<^verbatim>\<open>INSERT\<close> into a table with a primary key, under its two conflict
  clauses: the default aborts with an integrity error when the key is present;
  \<^verbatim>\<open>OR REPLACE\<close> deletes the rows holding the key, then inserts the new row.
\<close>

datatype on_conflict = Abort | Replace

definition sql_insert ::
  "on_conflict \<Rightarrow> summary_row list \<Rightarrow> summary_row \<Rightarrow> error + summary_row list" where
  "sql_insert oc t r =
     (if document_id r \<in> set (map document_id t)
      then (case oc of
              Abort \<Rightarrow> Inl IntegrityError
            | Replace \<Rightarrow> Inr (filter (\<lambda>x. document_id x \<noteq> document_id r) t @ [r]))
      else Inr (t @ [r]))"

record save_summary_result =
  res_document_id :: string
  res_filename :: string
  res_status :: string
  saved :: bool

definition save_summary_to_db ::
  "world \<Rightarrow> save_summary_request \<Rightarrow> (error + save_summary_result) \<times> world" where
  "save_summary_to_db w req =
     (case db w of
        None \<Rightarrow> (Inl OperationalError, w)
      | Some t \<Rightarrow>
          (case sql_insert Replace t
                  \<lparr>document_id = rq_document_id req, row_filename = rq_filename req,
                   summary = rq_summary req, status = rq_status req\<rparr> of
             Inl e \<Rightarrow> (Inl e, w)
           | Inr t' \<Rightarrow>
               (Inr \<lparr>res_document_id = rq_document_id req, res_filename = rq_filename req,
                     res_status = rq_status req, saved = True\<rparr>,
                w\<lparr>db := Some t'\<rparr>)))"

text \<open>
  The endpoint \<^verbatim>\<open>POST /save_summary_to_db\<close>: the body is validated by the request
  model, and only a body that passes reaches the handler.
\<close>

definition post_save_summary_to_db ::
  "world \<Rightarrow> (string \<rightharpoonup> json) \<Rightarrow> (error + save_summary_result) \<times> world" where
  "post_save_summary_to_db w body =
     (case SaveSummaryRequest body of
        Inl e \<Rightarrow> (Inl e, w)
      | Inr req \<Rightarrow> save_summary_to_db w req)"

section \<open>Notions the properties are stated with\<close>

text \<open>
  The specification's reading of the listing filter, stated on the characters of
  the name alone, for comparison with the handler's own test on
  \<^verbatim>\<open>f.suffix.lower()\<close>. An extension is spelled by a dot and then, position by
  position, either case of its letters; a name has a document extension when it
  ends in a spelling of \<^verbatim>\<open>.txt\<close>, \<^verbatim>\<open>.md\<close> or \<^verbatim>\<open>.pdf\<close> and something precedes it.
\<close>

definition extension_spellings :: "string list list" where
  "extension_spellings =
     [[''.'', ''tT'', ''xX'', ''tT''],
      [''.'', ''mM'', ''dD''],
      [''.'', ''pP'', ''dD'', ''fF'']]"

definition spells :: "string list \<Rightarrow> string \<Rightarrow> bool" where
  "spells pat s = list_all2 (\<lambda>allowed c. c \<in> set allowed) pat s"

definition has_document_extension :: "string \<Rightarrow> bool" where
  "has_document_extension nm =
     (\<exists>pat \<in> set extension_spellings.
        length pat < length nm \<and> spells pat (drop (length nm - length pat) nm))"

text \<open>
  Modelled from the spec: the caller's side of pagination, which the repository does
  not contain. The caller starts at an offset, calls \<^verbatim>\<open>read_document_chunk\<close> with
  a fixed chunk size, and repeats with \<open>offset = next_offset\<close> until a chunk has
  \<open>eof\<close>. \<open>fuel\<close> bounds the number of calls: \<open>None\<close> means the caller has not seen
  \<open>eof\<close> within that many calls (or a call failed).
\<close>

fun paginate :: "nat \<Rightarrow> world \<Rightarrow> py_path \<Rightarrow> int \<Rightarrow> int \<Rightarrow> chunk_result list option" where
  "paginate 0 w p cs off = None"
| "paginate (Suc fuel) w p cs off =
     (case fst (read_document_chunk w \<lparr>rq_path = p, rq_offset = off, rq_chunk_size = cs\<rparr>) of
        Inl e \<Rightarrow> None
      | Inr r \<Rightarrow>
          if eof r then Some [r]
          else (case next_offset r of
                  None \<Rightarrow> None
                | Some off' \<Rightarrow> map_option ((#) r) (paginate fuel w p cs off')))"

text \<open>
  Chunks without gaps or overlaps: the first starts at \<open>off\<close>, and each next one
  starts where the content of the one before it ends.
\<close>

fun contiguous :: "int \<Rightarrow> chunk_result list \<Rightarrow> bool" where
  "contiguous off [] = True"
| "contiguous off (r # rs) =
     (offset r = off \<and> contiguous (off + int (length (content r))) rs)"

text \<open>
  The rows of the table (none before it is created), the rows stored under one
  \<open>document_id\<close>, and the primary-key constraint SQLite keeps on the table.
\<close>

definition table :: "world \<Rightarrow> summary_row list" where
  "table w = (case db w of None \<Rightarrow> [] | Some t \<Rightarrow> t)"

definition rows_with :: "world \<Rightarrow> string \<Rightarrow> summary_row list" where
  "rows_with w d = filter (\<lambda>r. document_id r = d) (table w)"

definition primary_key_ok :: "world \<Rightarrow> bool" where
  "primary_key_ok w = distinct (map document_id (table w))"

text \<open>The row a save request writes, and a sequence of save requests run in order.\<close>

definition row_of :: "save_summary_request \<Rightarrow> summary_row" where
  "row_of req = \<lparr>document_id = rq_document_id req, row_filename = rq_filename req,
                 summary = rq_summary req, status = rq_status req\<rparr>"

fun save_all :: "world \<Rightarrow> save_summary_request list \<Rightarrow> world" where
  "save_all w [] = w"
| "save_all w (q # qs) = save_all (snd (save_summary_to_db w q)) qs"

section \<open>Example state\<close>

text \<open>
  A small filesystem: a text file, an empty file and a directory \<open>docs\<close> holding
  files and directories with and without the three extensions, in both cases.
  Paths are limited to 255 characters: a longer one makes \<^verbatim>\<open>exists()\<close> raise.
  The table \<^verbatim>\<open>summaries\<close> exists and is empty.
\<close>

definition example_fs :: "string \<Rightarrow> location" where
  "example_fs s =
     (if s = ''docs/hello.txt'' then Present (File ''hello world'')
      else if s = ''docs/empty.txt'' then Present (File [])
      else if s = ''docs'' then
        Present (Dir [\<lparr>name = ''hello.txt'', entry_path = ''docs/hello.txt'', is_dir = False\<rparr>,
                      \<lparr>name = ''README.MD'', entry_path = ''docs/README.MD'', is_dir = False\<rparr>,
                      \<lparr>name = ''notes.md'', entry_path = ''docs/notes.md'', is_dir = True\<rparr>,
                      \<lparr>name = ''photo.png'', entry_path = ''docs/photo.png'', is_dir = False\<rparr>,
                      \<lparr>name = ''REPORT.TXT'', entry_path = ''docs/REPORT.TXT'', is_dir = False\<rparr>,
                      \<lparr>name = ''.txt'', entry_path = ''docs/.txt'', is_dir = False\<rparr>,
                      \<lparr>name = ''paper.Pdf'', entry_path = ''docs/paper.Pdf'', is_dir = False\<rparr>,
                      \<lparr>name = ''archive'', entry_path = ''docs/archive'', is_dir = True\<rparr>])
      else if 255 < length s then Stat_fails (OS_error 36 ''File name too long'' s)
      else Absent)"

definition example_world :: world where
  "example_world = \<lparr>fs = example_fs, db = Some []\<rparr>"

definition hello_path :: py_path where
  "hello_path = \<lparr>path_str = ''docs/hello.txt'', path_name = ''hello.txt''\<rparr>"

definition empty_path :: py_path where
  "empty_path = \<lparr>path_str = ''docs/empty.txt'', path_name = ''empty.txt''\<rparr>"

definition docs_path :: py_path where
  "docs_path = \<lparr>path_str = ''docs'', path_name = ''docs''\<rparr>"

definition missing_path :: py_path where
  "missing_path = \<lparr>path_str = ''docs/nothing.txt'', path_name = ''nothing.txt''\<rparr>"

definition long_path :: py_path where
  "long_path = \<lparr>path_str = replicate 300 CHR ''a'', path_name = replicate 300 CHR ''a''\<rparr>"

definition first_save :: save_summary_request where
  "first_save = \<lparr>rq_document_id = ''doc-1'', rq_filename = ''hello.txt'',
                  rq_summary = ''draft'', rq_status = ''failed''\<rparr>"

definition other_save :: save_summary_request where
  "other_save = \<lparr>rq_document_id = ''doc-2'', rq_filename = ''notes.md'',
                  rq_summary = ''notes'', rq_status = ''completed''\<rparr>"

definition second_save :: save_summary_request where
  "second_save = \<lparr>rq_document_id = ''doc-1'', rq_filename = ''hello-v2.txt'',
                   rq_summary = ''a greeting'', rq_status = ''completed''\<rparr>"

definition pending_body :: "string \<rightharpoonup> json" where
  "pending_body =
     [''document_id'' \<mapsto> JStr ''doc-1'', ''filename'' \<mapsto> JStr ''hello.txt'',
      ''summary'' \<mapsto> JStr ''draft'', ''status'' \<mapsto> JStr ''pending'']"

section \<open>The chunk reader's result\<close>

text \<open>A quotient of magnitude at most 1 is a finite double.\<close>

lemma true_division_small:
  assumes "\<bar>a\<bar> \<le> \<bar>b\<bar>" and "b \<noteq> 0"
  shows "\<not> true_division_overflows a b"
proof -
  have "(1 :: int) < 2 ^ 1024 - 2 ^ 970" by simp
  moreover from assms(2) have "0 < \<bar>b\<bar>" by simp
  ultimately have "\<bar>b\<bar> < (2 ^ 1024 - 2 ^ 970) * \<bar>b\<bar>" by simp
  with assms(1) show ?thesis by (simp add: true_division_overflows_def)
qed

text \<open>With an end index that is not negative the division cannot overflow.\<close>

lemma no_overflow_nonneg_end:
  assumes "0 \<le> s + c" and "0 < n"
  shows "\<not> true_division_overflows (min n (s + c)) n"
  using assms by (intro true_division_small) simp_all

text \<open>
  A chunk is returned only for a path that names a readable file, only when the
  division in the progress does not overflow, and the state is kept.
\<close>

lemma read_document_chunk_InrD:
  assumes "read_document_chunk w req = (Inr r, w')"
  shows "\<exists>doc. fs w (path_str (rq_path req)) = Present (File doc) \<and> w' = w \<and>
           \<not> (0 < int (length doc) \<and>
              true_division_overflows
                (min (int (length doc)) (max 0 (rq_offset req) + rq_chunk_size req))
                (int (length doc)))"
proof (cases "fs w (path_str (rq_path req))")
  case Absent
  with assms show ?thesis by (simp add: read_document_chunk_def)
next
  case (Stat_fails e)
  with assms show ?thesis by (simp add: read_document_chunk_def)
next
  case (Present nd)
  with assms show ?thesis
    by (cases nd) (auto simp add: read_document_chunk_def Let_def split: if_splits)
qed

text \<open>The fields of the chunk returned for a readable file.\<close>

lemma read_document_chunk_File:
  assumes "fs w (path_str (rq_path req)) = Present (File doc)"
    and "\<not> (0 < int (length doc) \<and>
            true_division_overflows
              (min (int (length doc)) (max 0 (rq_offset req) + rq_chunk_size req))
              (int (length doc)))"
  shows "\<exists>r. read_document_chunk w req = (Inr r, w) \<and>
           path r = path_str (rq_path req) \<and>
           filename r = path_name (rq_path req) \<and>
           offset r = max 0 (rq_offset req) \<and>
           total_length r = int (length doc) \<and>
           content r = py_slice doc (max 0 (rq_offset req))
             (min (int (length doc)) (max 0 (rq_offset req) + rq_chunk_size req)) \<and>
           eof r = (int (length doc) \<le> min (int (length doc)) (max 0 (rq_offset req) + rq_chunk_size req)) \<and>
           next_offset r =
             (if eof r then None
              else Some (min (int (length doc)) (max 0 (rq_offset req) + rq_chunk_size req))) \<and>
           chunk_size r = int (length (content r)) \<and>
           progress r =
             (if 0 < int (length doc)
              then Rounded_percent
                (min (int (length doc)) (max 0 (rq_offset req) + rq_chunk_size req)) (int (length doc))
              else Literal ''0%'')"
  using assms by (simp add: read_document_chunk_def Let_def)

text \<open>A readable file and an end index that is not negative always give a chunk.\<close>

lemma read_document_chunk_nonneg_end:
  assumes "fs w (path_str (rq_path req)) = Present (File doc)"
    and "0 \<le> max 0 (rq_offset req) + rq_chunk_size req"
  shows "\<exists>r. read_document_chunk w req = (Inr r, w) \<and>
           offset r = max 0 (rq_offset req) \<and>
           content r = py_slice doc (max 0 (rq_offset req))
             (min (int (length doc)) (max 0 (rq_offset req) + rq_chunk_size req)) \<and>
           eof r = (int (length doc) \<le> min (int (length doc)) (max 0 (rq_offset req) + rq_chunk_size req)) \<and>
           next_offset r =
             (if eof r then None
              else Some (min (int (length doc)) (max 0 (rq_offset req) + rq_chunk_size req)))"
proof -
  have "\<not> (0 < int (length doc) \<and>
            true_division_overflows
              (min (int (length doc)) (max 0 (rq_offset req) + rq_chunk_size req))
              (int (length doc)))"
    using no_overflow_nonneg_end [OF assms(2)] by blast
  from read_document_chunk_File [OF assms(1) this] show ?thesis by blast
qed

text \<open>
  The overflow itself: for the text \<open>hello world\<close>, offset 0 and chunk size
  \<open>- (10 ^ 310)\<close> the end index is the chunk size, \<open>end / 11\<close> is beyond every
  double, and the request fails with the uncaught \<^verbatim>\<open>OverflowError\<close>.
\<close>

lemma huge_negative_chunk_size_overflows:
  "read_document_chunk example_world
     \<lparr>rq_path = hello_path, rq_offset = 0, rq_chunk_size = - (10 ^ 310)\<rparr> =
     (Inl OverflowError, example_world)"
  by (simp add: read_document_chunk_def example_world_def example_fs_def hello_path_def
      true_division_overflows_def)

lemma hello_chunk_5_4:
  "read_document_chunk example_world \<lparr>rq_path = hello_path, rq_offset = 5, rq_chunk_size = 4\<rparr> =
     (Inr \<lparr>path = ''docs/hello.txt'', filename = ''hello.txt'', offset = 5, next_offset = Some 9,
           chunk_size = 4, total_length = 11, progress = Rounded_percent 9 11, eof = False,
           content = '' wor''\<rparr>, example_world)"
  by (simp add: read_document_chunk_def example_world_def example_fs_def hello_path_def
      py_slice_def adjust_index_def true_division_small)

lemma hello_chunk_neg4_2000:
  "read_document_chunk example_world \<lparr>rq_path = hello_path, rq_offset = - 4, rq_chunk_size = 2000\<rparr> =
     (Inr \<lparr>path = ''docs/hello.txt'', filename = ''hello.txt'', offset = 0, next_offset = None,
           chunk_size = 11, total_length = 11, progress = Rounded_percent 11 11, eof = True,
           content = ''hello world''\<rparr>, example_world)"
  by (simp add: read_document_chunk_def example_world_def example_fs_def hello_path_def
      py_slice_def adjust_index_def true_division_small)

section \<open>Missing paths\<close>

text \<open>
  Claim C7 as stated, at a path of 300 letters in a filesystem that allows names of
  255: the path references no existing location, \<^verbatim>\<open>path.exists()\<close> raises the
  operating system's error 36 instead of returning \<^verbatim>\<open>False\<close>, neither handler
  catches it, and both requests fail with that error (status 500), not with the
  HTTP exception of status 404.
\<close>

theorem overlong_path_counterexample:
  "fs example_world (path_str long_path) =
     Stat_fails (OS_error 36 ''File name too long'' (replicate 300 CHR ''a'')) \<and>
   list_directory example_world \<lparr>ld_path = long_path\<rparr> =
     (Inl (OSError (OS_error 36 ''File name too long'' (replicate 300 CHR ''a''))), example_world) \<and>
   fst (list_directory example_world \<lparr>ld_path = long_path\<rparr>) \<noteq>
     Inl (HTTPException 404 (Text ''Directory not found'')) \<and>
   read_document_chunk example_world \<lparr>rq_path = long_path, rq_offset = 0, rq_chunk_size = 2000\<rparr> =
     (Inl (OSError (OS_error 36 ''File name too long'' (replicate 300 CHR ''a''))), example_world) \<and>
   fst (read_document_chunk example_world
          \<lparr>rq_path = long_path, rq_offset = 0, rq_chunk_size = 2000\<rparr>) \<noteq>
     Inl (HTTPException 404 (Text (''File not found: '' @ replicate 300 CHR ''a'')))"
proof -
  have "replicate 300 CHR ''a'' \<noteq> ''docs/hello.txt''"
    and "replicate 300 CHR ''a'' \<noteq> ''docs/empty.txt''"
    and "replicate 300 CHR ''a'' \<noteq> ''docs''"
    by (auto dest: arg_cong [where f = length])
  then show ?thesis
    by (simp add: list_directory_def read_document_chunk_def example_world_def example_fs_def
        long_path_def)
qed

text \<open>
  Claim C7, amended. When \<^verbatim>\<open>path.exists()\<close> reports that nothing is at the
  request's path (it returns \<^verbatim>\<open>False\<close>), \<^verbatim>\<open>list_directory\<close> and
  \<^verbatim>\<open>read_document_chunk\<close> both fail with the HTTP exception of status 404, and both
  leave the filesystem and the database as they were.
\<close>

theorem missing_path_not_found:
  assumes "fs w (path_str p) = Absent"
  shows "list_directory w \<lparr>ld_path = p\<rparr> =
           (Inl (HTTPException 404 (Text ''Directory not found'')), w) \<and>
         read_document_chunk w \<lparr>rq_path = p, rq_offset = off, rq_chunk_size = cs\<rparr> =
           (Inl (HTTPException 404 (Text (''File not found: '' @ path_str p))), w)"
  using assms by (simp add: list_directory_def read_document_chunk_def)

theorem missing_path_not_found_witness:
  "fs example_world (path_str missing_path) = Absent \<and>
   list_directory example_world \<lparr>ld_path = missing_path\<rparr> =
     (Inl (HTTPException 404 (Text ''Directory not found'')), example_world) \<and>
   read_document_chunk example_world \<lparr>rq_path = missing_path, rq_offset = 0, rq_chunk_size = 2000\<rparr> =
     (Inl (HTTPException 404 (Text ''File not found: docs/nothing.txt'')), example_world)"
proof -
  have h: "fs example_world (path_str missing_path) = Absent"
    by (simp add: example_world_def example_fs_def missing_path_def)
  from missing_path_not_found [OF h, of 0 2000] h show ?thesis
    by (simp add: missing_path_def)
qed

section \<open>Pagination metadata\<close>

text \<open>
  Claim C9. In every chunk that \<^verbatim>\<open>read_document_chunk\<close> returns, \<open>next_offset\<close> is
  null exactly when \<open>eof\<close> is true; when \<open>eof\<close> is false, \<open>next_offset\<close> is the end
  index \<open>min total_len (start + chunk_size)\<close> with \<open>start = max 0 offset\<close>.
\<close>

theorem next_offset_null_iff_eof:
  assumes "read_document_chunk w req = (Inr r, w')"
  shows "(next_offset r = None) = eof r \<and>
         (\<not> eof r \<longrightarrow>
            next_offset r = Some (min (total_length r) (max 0 (rq_offset req) + rq_chunk_size req)))"
proof -
  from read_document_chunk_InrD [OF assms] obtain doc
    where "fs w (path_str (rq_path req)) = Present (File doc)"
      and "\<not> (0 < int (length doc) \<and>
              true_division_overflows
                (min (int (length doc)) (max 0 (rq_offset req) + rq_chunk_size req))
                (int (length doc)))"
    by blast
  from read_document_chunk_File [OF this] assms show ?thesis by auto
qed

theorem next_offset_null_iff_eof_witness:
  "read_document_chunk example_world \<lparr>rq_path = hello_path, rq_offset = 5, rq_chunk_size = 4\<rparr> =
     (Inr \<lparr>path = ''docs/hello.txt'', filename = ''hello.txt'', offset = 5, next_offset = Some 9,
           chunk_size = 4, total_length = 11, progress = Rounded_percent 9 11, eof = False,
           content = '' wor''\<rparr>, example_world) \<and>
   next_offset \<lparr>path = ''docs/hello.txt'', filename = ''hello.txt'', offset = 5, next_offset = Some 9,
           chunk_size = 4, total_length = 11, progress = Rounded_percent 9 11, eof = False,
           content = '' wor''\<rparr> = Some (min 11 (max 0 5 + 4))"
  using next_offset_null_iff_eof [OF hello_chunk_5_4] hello_chunk_5_4 by simp

text \<open>
  Claim C10. In every chunk that \<^verbatim>\<open>read_document_chunk\<close> returns, the \<open>offset\<close>
  field is the clamped \<open>max 0 offset\<close>, not the offset of the request, and the
  \<open>chunk_size\<close> field is the length of the returned content, not the chunk size of
  the request.
\<close>

theorem offset_and_chunk_size_fields:
  assumes "read_document_chunk w req = (Inr r, w')"
  shows "offset r = max 0 (rq_offset req) \<and> chunk_size r = int (length (content r))"
proof -
  from read_document_chunk_InrD [OF assms] obtain doc
    where "fs w (path_str (rq_path req)) = Present (File doc)"
      and "\<not> (0 < int (length doc) \<and>
              true_division_overflows
                (min (int (length doc)) (max 0 (rq_offset req) + rq_chunk_size req))
                (int (length doc)))"
    by blast
  from read_document_chunk_File [OF this] assms show ?thesis by auto
qed

theorem offset_and_chunk_size_fields_witness:
  "read_document_chunk example_world \<lparr>rq_path = hello_path, rq_offset = - 4, rq_chunk_size = 2000\<rparr> =
     (Inr \<lparr>path = ''docs/hello.txt'', filename = ''hello.txt'', offset = 0, next_offset = None,
           chunk_size = 11, total_length = 11, progress = Rounded_percent 11 11, eof = True,
           content = ''hello world''\<rparr>, example_world) \<and>
   offset \<lparr>path = ''docs/hello.txt'', filename = ''hello.txt'', offset = 0, next_offset = None,
           chunk_size = 11, total_length = 11, progress = Rounded_percent 11 11, eof = True,
           content = ''hello world''\<rparr> = max 0 (- 4) \<and>
   chunk_size \<lparr>path = ''docs/hello.txt'', filename = ''hello.txt'', offset = 0, next_offset = None,
           chunk_size = 11, total_length = 11, progress = Rounded_percent 11 11, eof = True,
           content = ''hello world''\<rparr> = int (length ''hello world'')"
  using offset_and_chunk_size_fields [OF hello_chunk_neg4_2000] hello_chunk_neg4_2000 by simp

section \<open>Slices with bounds that are not negative\<close>

lemma py_slice_nonneg:
  assumes "0 \<le> a" and "0 \<le> b"
  shows "py_slice xs a b = take (nat (b - a)) (drop (nat a) xs)"
  using assms by (auto simp add: py_slice_def adjust_index_def Let_def)

lemma length_py_slice_clamped:
  assumes "0 \<le> a" and "0 \<le> b" and "b \<le> int (length xs)"
  shows "int (length (py_slice xs a b)) = max 0 (b - a)"
  using assms by (auto simp add: py_slice_nonneg)

section \<open>The slice a request selects\<close>

text \<open>
  Claim C1, evaluated where the code departs from it. For the text \<open>hello world\<close>,
  offset 0 and chunk size -3 the handler computes \<open>start = 0\<close> and
  \<open>end = min 11 (0 + -3) = -3\<close>, so \<open>start \<ge> end\<close>; the claim has the content empty
  there. The slice \<^verbatim>\<open>text[0:-3]\<close> counts the negative end from the end of the text,
  and the handler returns the eight characters \<open>hello wo\<close>, with \<open>eof\<close> false and
  the negative \<open>next_offset\<close> -3.
\<close>

theorem negative_end_wraps_around:
  "read_document_chunk example_world \<lparr>rq_path = hello_path, rq_offset = 0, rq_chunk_size = - 3\<rparr> =
     (Inr \<lparr>path = ''docs/hello.txt'', filename = ''hello.txt'', offset = 0, next_offset = Some (- 3),
           chunk_size = 8, total_length = 11, progress = Rounded_percent (- 3) 11, eof = False,
           content = ''hello wo''\<rparr>, example_world)"
  by (simp add: read_document_chunk_def example_world_def example_fs_def hello_path_def
      py_slice_def adjust_index_def true_division_small)

text \<open>
  Claim C2 as stated, at the text \<open>hello world\<close> (length 11), offset -4 and chunk
  size 12: the claimed length is \<open>max 0 (min 11 (-4 + 12) - max 0 (-4)) = 8\<close> and the
  claimed \<open>eof\<close> is \<open>min 11 (-4 + 12) \<ge> 11\<close>, that is false. The handler adds the
  chunk size to the clamped start 0, so the end is 11: it returns all eleven
  characters and \<open>eof\<close> true.
\<close>

theorem chunk_length_formula_counterexample:
  "read_document_chunk example_world \<lparr>rq_path = hello_path, rq_offset = - 4, rq_chunk_size = 12\<rparr> =
     (Inr \<lparr>path = ''docs/hello.txt'', filename = ''hello.txt'', offset = 0, next_offset = None,
           chunk_size = 11, total_length = 11, progress = Rounded_percent 11 11, eof = True,
           content = ''hello world''\<rparr>, example_world) \<and>
   int (length ''hello world'') \<noteq> max 0 (min 11 (- 4 + 12) - max 0 (- 4)) \<and>
   True \<noteq> ((11 :: int) \<le> min 11 (- 4 + 12))"
  by (simp add: read_document_chunk_def example_world_def example_fs_def hello_path_def
      py_slice_def adjust_index_def true_division_small)

text \<open>
  Claim C2, amended. For a readable file of decoded length \<open>L\<close> and all integers
  offset and chunk size with \<open>start + chunk_size \<ge> 0\<close>, where \<open>start = max 0 offset\<close>,
  \<^verbatim>\<open>read_document_chunk\<close> returns a chunk whose content has length
  \<open>max 0 (min L (start + chunk_size) - start)\<close> and whose \<open>eof\<close> is
  \<open>min L (start + chunk_size) \<ge> L\<close>.
\<close>

theorem chunk_length_and_eof:
  assumes "fs w (path_str (rq_path req)) = Present (File doc)"
    and "0 \<le> max 0 (rq_offset req) + rq_chunk_size req"
  shows "\<exists>r. read_document_chunk w req = (Inr r, w) \<and>
           int (length (content r)) =
             max 0 (min (int (length doc)) (max 0 (rq_offset req) + rq_chunk_size req)
                    - max 0 (rq_offset req)) \<and>
           eof r = (int (length doc) \<le> min (int (length doc)) (max 0 (rq_offset req) + rq_chunk_size req))"
proof -
  from read_document_chunk_nonneg_end [OF assms] obtain r where
    r: "read_document_chunk w req = (Inr r, w)"
      "content r = py_slice doc (max 0 (rq_offset req))
             (min (int (length doc)) (max 0 (rq_offset req) + rq_chunk_size req))"
      "eof r = (int (length doc) \<le> min (int (length doc)) (max 0 (rq_offset req) + rq_chunk_size req))"
    by blast
  have "int (length (content r)) =
          max 0 (min (int (length doc)) (max 0 (rq_offset req) + rq_chunk_size req) - max 0 (rq_offset req))"
    unfolding r(2) using assms(2) by (intro length_py_slice_clamped) simp_all
  with r show ?thesis by blast
qed

theorem chunk_length_and_eof_witness:
  "fs example_world (path_str hello_path) = Present (File ''hello world'') \<and>
   (0 :: int) \<le> max 0 (- 4) + 12 \<and>
   (\<exists>r. read_document_chunk example_world
           \<lparr>rq_path = hello_path, rq_offset = - 4, rq_chunk_size = 12\<rparr> = (Inr r, example_world) \<and>
        int (length (content r)) = 11 \<and> eof r = True)"
proof -
  have h: "fs example_world (path_str (rq_path \<lparr>rq_path = hello_path, rq_offset = - 4, rq_chunk_size = 12\<rparr>)) =
             Present (File ''hello world'')"
    by (simp add: example_world_def example_fs_def hello_path_def)
  have c: "0 \<le> max 0 (rq_offset \<lparr>rq_path = hello_path, rq_offset = - 4, rq_chunk_size = 12\<rparr>)
                + rq_chunk_size \<lparr>rq_path = hello_path, rq_offset = - 4, rq_chunk_size = 12\<rparr>"
    by simp
  from chunk_length_and_eof [OF h c] h show ?thesis by simp
qed

section \<open>Paging through a file\<close>

lemma paginate_from:
  assumes "fs w (path_str p) = Present (File doc)" and "0 < cs"
  shows "0 \<le> off \<Longrightarrow> off \<le> int (length doc) \<Longrightarrow> length doc < fuel + nat off \<Longrightarrow>
         \<exists>rs. paginate fuel w p cs off = Some rs \<and>
              concat (map content rs) = drop (nat off) doc \<and> contiguous off rs"
proof (induction fuel arbitrary: off)
  case 0
  then show ?case by simp
next
  case (Suc fuel)
  let ?req = "\<lparr>rq_path = p, rq_offset = off, rq_chunk_size = cs\<rparr>"
  let ?e = "min (int (length doc)) (off + cs)"
  from assms(1) have f: "fs w (path_str (rq_path ?req)) = Present (File doc)" by simp
  from assms(2) Suc.prems(1) have "0 \<le> max 0 (rq_offset ?req) + rq_chunk_size ?req" by simp
  from read_document_chunk_nonneg_end [OF f this] Suc.prems(1) obtain r where
    r: "read_document_chunk w ?req = (Inr r, w)" "offset r = off"
       "content r = py_slice doc off ?e" "eof r = (int (length doc) \<le> ?e)"
       "next_offset r = (if eof r then None else Some ?e)"
    by auto
  from Suc.prems(1) assms(2) have c: "content r = take (nat (?e - off)) (drop (nat off) doc)"
    unfolding r(3) by (intro py_slice_nonneg) simp_all
  show ?case
  proof (cases "eof r")
    case True
    with r(4) have "int (length doc) \<le> off + cs" by simp
    with c Suc.prems(1) have "content r = drop (nat off) doc" by simp
    with True r show ?thesis by simp
  next
    case False
    with r(4) have e: "?e = off + cs" "off + cs < int (length doc)" by simp_all
    from e assms(2) Suc.prems have "0 \<le> off + cs" "off + cs \<le> int (length doc)"
      "length doc < fuel + nat (off + cs)" by linarith+
    from Suc.IH [OF this] obtain rs where
      rs: "paginate fuel w p cs (off + cs) = Some rs"
          "concat (map content rs) = drop (nat (off + cs)) doc" "contiguous (off + cs) rs"
      by blast
    from c e assms(2) Suc.prems(1) have c': "content r = take (nat cs) (drop (nat off) doc)" by simp
    from e assms(2) Suc.prems(1) have len: "int (length (content r)) = cs" unfolding c' by simp
    have "take (nat cs) (drop (nat off) doc) @ drop (nat (off + cs)) doc = drop (nat off) doc"
    proof -
      from assms(2) Suc.prems(1) have "nat (off + cs) = nat cs + nat off" by simp
      then have "drop (nat (off + cs)) doc = drop (nat cs) (drop (nat off) doc)" by simp
      then show ?thesis by (simp only: append_take_drop_id)
    qed
    with False r rs e c' len show ?thesis by simp
  qed
qed

lemma paginate_zero_stuck:
  "paginate fuel example_world hello_path 0 0 = None"
  by (induction fuel)
    (simp_all add: read_document_chunk_def example_world_def example_fs_def hello_path_def
      py_slice_def adjust_index_def true_division_small)

text \<open>
  Claim C3 as stated, at the text \<open>hello world\<close> and chunk size 0: the call at
  offset 0 returns no content, \<open>eof\<close> false and \<open>next_offset\<close> 0, so the caller is
  sent back to offset 0 and no number of calls reaches \<open>eof\<close>.
\<close>

theorem pagination_counterexample:
  "read_document_chunk example_world \<lparr>rq_path = hello_path, rq_offset = 0, rq_chunk_size = 0\<rparr> =
     (Inr \<lparr>path = ''docs/hello.txt'', filename = ''hello.txt'', offset = 0, next_offset = Some 0,
           chunk_size = 0, total_length = 11, progress = Rounded_percent 0 11, eof = False,
           content = []\<rparr>, example_world) \<and>
   \<not> (\<exists>fuel rs. paginate fuel example_world hello_path 0 0 = Some rs)"
  by (simp add: paginate_zero_stuck)
    (simp add: read_document_chunk_def example_world_def example_fs_def hello_path_def
      py_slice_def adjust_index_def true_division_small)

text \<open>
  Claim C3, amended. For a readable file with fixed decoded content and a chunk size
  of at least 1, calling \<^verbatim>\<open>read_document_chunk\<close> from offset 0 and continuing with
  \<open>offset = next_offset\<close> reaches \<open>eof\<close> within \<open>length + 1\<close> calls, and the contents
  of the chunks, in order, concatenate to exactly the decoded text, each chunk
  starting where the one before it ended.
\<close>

theorem pagination_reconstructs_file:
  assumes "fs w (path_str p) = Present (File doc)" and "0 < cs" and "length doc < fuel"
  shows "\<exists>rs. paginate fuel w p cs 0 = Some rs \<and>
              concat (map content rs) = doc \<and> contiguous 0 rs"
  using paginate_from [OF assms(1,2), of 0 fuel] assms(3) by simp

lemma hello_pages:
  "paginate 12 example_world hello_path 4 0 =
     Some [\<lparr>path = ''docs/hello.txt'', filename = ''hello.txt'', offset = 0, next_offset = Some 4,
             chunk_size = 4, total_length = 11, progress = Rounded_percent 4 11, eof = False,
             content = ''hell''\<rparr>,
           \<lparr>path = ''docs/hello.txt'', filename = ''hello.txt'', offset = 4, next_offset = Some 8,
             chunk_size = 4, total_length = 11, progress = Rounded_percent 8 11, eof = False,
             content = ''o wo''\<rparr>,
           \<lparr>path = ''docs/hello.txt'', filename = ''hello.txt'', offset = 8, next_offset = None,
             chunk_size = 3, total_length = 11, progress = Rounded_percent 11 11, eof = True,
             content = ''rld''\<rparr>]"
  by (simp add: eval_nat_numeral read_document_chunk_def example_world_def example_fs_def
      hello_path_def py_slice_def adjust_index_def true_division_small)

theorem pagination_reconstructs_file_witness:
  "fs example_world (path_str hello_path) = Present (File ''hello world'') \<and>
   (0 :: int) < 4 \<and> length ''hello world'' < 12 \<and>
   (\<exists>rs. paginate 12 example_world hello_path 4 0 = Some rs \<and>
         concat (map content rs) = ''hello world'' \<and> contiguous 0 rs \<and> length rs = 3)"
proof -
  have h: "fs example_world (path_str hello_path) = Present (File ''hello world'')"
    by (simp add: example_world_def example_fs_def hello_path_def)
  have c: "(0 :: int) < 4" and f: "length ''hello world'' < 12" by simp_all
  from pagination_reconstructs_file [OF h c f] hello_pages h show ?thesis by auto
qed

section \<open>Empty files\<close>

text \<open>
  Claim C4, evaluated where the code departs from it. For the empty file, offset 0
  and chunk size -1 the handler computes \<open>end = min 0 (0 + -1) = -1\<close>, and \<open>eof\<close>,
  computed as \<open>end \<ge> total_len\<close>, is false, with \<open>next_offset\<close> -1; the claim has
  \<open>eof\<close> true for every chunk size. The other three fields are as claimed.
\<close>

theorem empty_file_negative_chunk_size:
  "read_document_chunk example_world \<lparr>rq_path = empty_path, rq_offset = 0, rq_chunk_size = - 1\<rparr> =
     (Inr \<lparr>path = ''docs/empty.txt'', filename = ''empty.txt'', offset = 0, next_offset = Some (- 1),
           chunk_size = 0, total_length = 0, progress = Literal ''0%'', eof = False,
           content = []\<rparr>, example_world)"
  by (simp add: read_document_chunk_def example_world_def example_fs_def empty_path_def
      py_slice_def adjust_index_def)

text \<open>
  What holds of an empty file: a chunk is returned for all offsets and chunk sizes
  (nothing is divided), the length is 0, the content is empty and the progress is
  the literal \<open>0%\<close>; \<open>eof\<close> is true exactly when \<open>max 0 offset + chunk_size\<close> is not
  negative.
\<close>

lemma empty_file_chunk:
  assumes "fs w (path_str (rq_path req)) = Present (File [])"
  shows "\<exists>r. read_document_chunk w req = (Inr r, w) \<and> total_length r = 0 \<and> content r = [] \<and>
           progress r = Literal ''0%'' \<and>
           eof r = (0 \<le> max 0 (rq_offset req) + rq_chunk_size req)"
proof -
  have "\<not> (0 < int (length ([] :: string)) \<and>
          true_division_overflows
            (min (int (length ([] :: string))) (max 0 (rq_offset req) + rq_chunk_size req))
            (int (length ([] :: string))))"
    by simp
  from read_document_chunk_File [OF assms this] show ?thesis
    by (auto simp add: py_slice_def adjust_index_def)
qed

section \<open>The listing filter\<close>















lemma docs_listing:
  "list_directory example_world \<lparr>ld_path = docs_path\<rparr> =
     (Inr \<lparr>dir_path = ''docs'',
           files = [\<lparr>name = ''hello.txt'', entry_path = ''docs/hello.txt'', is_dir = False\<rparr>,
                    \<lparr>name = ''README.MD'', entry_path = ''docs/README.MD'', is_dir = False\<rparr>,
                    \<lparr>name = ''notes.md'', entry_path = ''docs/notes.md'', is_dir = True\<rparr>,
                    \<lparr>name = ''REPORT.TXT'', entry_path = ''docs/REPORT.TXT'', is_dir = False\<rparr>,
                    \<lparr>name = ''paper.Pdf'', entry_path = ''docs/paper.Pdf'', is_dir = False\<rparr>]\<rparr>,
      example_world)"
  by (simp add: list_directory_def example_world_def example_fs_def docs_path_def
      suffix_def rfind_def lower_def lower_char_def)


text \<open>
  The predicate alone, on names in either case and on names it refuses: no dot, a
  dot only at the front, another extension, a dot at the end.
\<close>

lemma has_document_extension_examples:
  "has_document_extension ''x.TXT''" "has_document_extension ''c.Pdf''"
  "has_document_extension ''a.b.mD''" "has_document_extension ''..txt''"
  "\<not> has_document_extension ''.txt''" "\<not> has_document_extension ''txt''"
  "\<not> has_document_extension ''a.txt.bak''" "\<not> has_document_extension ''a.txt.''"
  "\<not> has_document_extension ''a.text''" "\<not> has_document_extension []"
  by (simp_all add: has_document_extension_def extension_spellings_def spells_def)


section \<open>The summaries table\<close>

lemma filter_absent_key:
  "k \<notin> set (map f t) \<Longrightarrow> filter (\<lambda>x. f x \<noteq> k) t = t"
  by (induction t) auto

text \<open>\<^verbatim>\<open>INSERT OR REPLACE\<close> never aborts: it drops the rows of the key and appends.\<close>

lemma sql_insert_Replace:
  "sql_insert Replace t r = Inr (filter (\<lambda>x. document_id x \<noteq> document_id r) t @ [r])"
proof (cases "document_id r \<in> set (map document_id t)")
  case True
  then show ?thesis by (simp add: sql_insert_def)
next
  case False
  then have "filter (\<lambda>x. document_id x \<noteq> document_id r) t = t"
    by (rule filter_absent_key)
  with False show ?thesis by (simp add: sql_insert_def)
qed

lemma save_summary_to_db_Some:
  assumes "db w = Some t"
  shows "save_summary_to_db w req =
           (Inr \<lparr>res_document_id = rq_document_id req, res_filename = rq_filename req,
                 res_status = rq_status req, saved = True\<rparr>,
            w\<lparr>db := Some (filter (\<lambda>x. document_id x \<noteq> rq_document_id req) t @ [row_of req])\<rparr>)"
  using assms by (simp add: save_summary_to_db_def sql_insert_Replace row_of_def)

lemma distinct_after_replace:
  assumes "distinct (map document_id t)"
  shows "distinct (map document_id (filter (\<lambda>x. document_id x \<noteq> d) t @ [r\<lparr>document_id := d\<rparr>]))"
  using assms by (auto simp add: distinct_map_filter)

lemma save_keeps_primary_key:
  assumes "db w = Some t" and "primary_key_ok w"
  shows "\<exists>t'. db (snd (save_summary_to_db w req)) = Some t' \<and>
              primary_key_ok (snd (save_summary_to_db w req))"
  using assms distinct_after_replace [of t "rq_document_id req" "row_of req"]
  by (simp add: save_summary_to_db_Some primary_key_ok_def table_def row_of_def)

lemma save_all_keeps_primary_key:
  "db w = Some t \<Longrightarrow> primary_key_ok w \<Longrightarrow>
     (\<exists>t'. db (save_all w reqs) = Some t') \<and> primary_key_ok (save_all w reqs)"
proof (induction reqs arbitrary: w t)
  case Nil
  then show ?case by simp
next
  case (Cons q qs)
  from save_keeps_primary_key [OF Cons.prems, of q] obtain t' where
    "db (snd (save_summary_to_db w q)) = Some t'" "primary_key_ok (snd (save_summary_to_db w q))"
    by blast
  from Cons.IH [OF this] show ?case by simp
qed

lemma init_db_table:
  "\<exists>t. db (init_db w) = Some t \<and> table (init_db w) = table w"
  by (cases "db w") (simp_all add: init_db_def table_def)

lemma distinct_filter_le_1:
  assumes "distinct (map f xs)"
  shows "length (filter (\<lambda>x. f x = k) xs) \<le> 1"
  using assms by (induction xs) (auto simp add: filter_empty_conv image_iff)

lemma example_saves:
  "save_all (init_db example_world) [first_save, other_save] =
     example_world\<lparr>db := Some
       [\<lparr>document_id = ''doc-1'', row_filename = ''hello.txt'', summary = ''draft'', status = ''failed''\<rparr>,
        \<lparr>document_id = ''doc-2'', row_filename = ''notes.md'', summary = ''notes'',
          status = ''completed''\<rparr>]\<rparr>"
  by (simp add: init_db_def example_world_def save_summary_to_db_def sql_insert_def
      first_save_def other_save_def)

text \<open>
  Claim C6. Start from any state whose table, if it exists, respects the primary
  key, and run the schema initialisation and then any sequence of saves. Then every
  \<open>document_id\<close> has at most one row; and a further save succeeds (it cannot fail on
  uniqueness), leaves exactly one row under its \<open>document_id\<close>, holding the
  \<open>document_id\<close>, \<open>filename\<close>, \<open>summary\<close> and \<open>status\<close> of this request, and leaves
  the rows of every other \<open>document_id\<close> as they were.
\<close>

theorem summaries_one_row_per_id:
  assumes "primary_key_ok w0"
  shows "(\<forall>d. length (rows_with (save_all (init_db w0) reqs) d) \<le> 1) \<and>
         (\<exists>w'. save_summary_to_db (save_all (init_db w0) reqs) req =
                  (Inr \<lparr>res_document_id = rq_document_id req, res_filename = rq_filename req,
                        res_status = rq_status req, saved = True\<rparr>, w') \<and>
                rows_with w' (rq_document_id req) = [row_of req] \<and>
                (\<forall>d. d \<noteq> rq_document_id req \<longrightarrow>
                       rows_with w' d = rows_with (save_all (init_db w0) reqs) d))"
proof -
  let ?w = "save_all (init_db w0) reqs"
  from init_db_table [of w0] obtain t0 where
    t0: "db (init_db w0) = Some t0" "table (init_db w0) = table w0"
    by blast
  with assms have "primary_key_ok (init_db w0)" by (simp add: primary_key_ok_def)
  from save_all_keeps_primary_key [OF t0(1) this, of reqs] obtain t where
    t: "db ?w = Some t" "primary_key_ok ?w" by blast
  then have d: "distinct (map document_id t)" by (simp add: primary_key_ok_def table_def)
  have one: "\<forall>d. length (rows_with ?w d) \<le> 1"
    using distinct_filter_le_1 [OF d] t(1) by (simp add: rows_with_def table_def)
  let ?w' = "?w\<lparr>db := Some (filter (\<lambda>x. document_id x \<noteq> rq_document_id req) t @ [row_of req])\<rparr>"
  have s: "save_summary_to_db ?w req =
           (Inr \<lparr>res_document_id = rq_document_id req, res_filename = rq_filename req,
                 res_status = rq_status req, saved = True\<rparr>, ?w')"
    using t(1) by (rule save_summary_to_db_Some)
  have a: "rows_with ?w' (rq_document_id req) = [row_of req]"
    by (simp add: rows_with_def table_def row_of_def)
  have b: "\<forall>d. d \<noteq> rq_document_id req \<longrightarrow> rows_with ?w' d = rows_with ?w d"
    using t(1) by (auto simp add: rows_with_def table_def row_of_def intro: filter_cong)
  from one s a b show ?thesis by blast
qed

theorem summaries_one_row_per_id_witness:
  "primary_key_ok example_world \<and>
   length (rows_with (save_all (init_db example_world) [first_save, other_save]) ''doc-1'') \<le> 1 \<and>
   (\<exists>w'. save_summary_to_db (save_all (init_db example_world) [first_save, other_save]) second_save =
            (Inr \<lparr>res_document_id = ''doc-1'', res_filename = ''hello-v2.txt'',
                  res_status = ''completed'', saved = True\<rparr>, w') \<and>
          rows_with w' ''doc-1'' =
            [\<lparr>document_id = ''doc-1'', row_filename = ''hello-v2.txt'', summary = ''a greeting'',
              status = ''completed''\<rparr>] \<and>
          rows_with w' ''doc-2'' =
            [\<lparr>document_id = ''doc-2'', row_filename = ''notes.md'', summary = ''notes'',
              status = ''completed''\<rparr>])"
proof -
  have h: "primary_key_ok example_world"
    by (simp add: primary_key_ok_def table_def example_world_def)
  from summaries_one_row_per_id [OF h, of "[first_save, other_save]" second_save]
  obtain w' where
    w': "length (rows_with (save_all (init_db example_world) [first_save, other_save]) ''doc-1'') \<le> 1"
      "save_summary_to_db (save_all (init_db example_world) [first_save, other_save]) second_save =
         (Inr \<lparr>res_document_id = rq_document_id second_save, res_filename = rq_filename second_save,
               res_status = rq_status second_save, saved = True\<rparr>, w')"
      "rows_with w' (rq_document_id second_save) = [row_of second_save]"
      "rows_with w' ''doc-2'' =
         rows_with (save_all (init_db example_world) [first_save, other_save]) ''doc-2''"
    by (auto simp add: second_save_def)
  from w'(4) have "rows_with w' ''doc-2'' =
      [\<lparr>document_id = ''doc-2'', row_filename = ''notes.md'', summary = ''notes'',
        status = ''completed''\<rparr>]"
    unfolding example_saves by (simp add: rows_with_def table_def)
  with h w'(1,2,3) show ?thesis
    by (auto simp add: second_save_def row_of_def)
qed

section \<open>The status of a saved summary\<close>

text \<open>
  Claim C8, evaluated where the code departs from it. A body whose \<open>status\<close> is the
  string \<open>pending\<close>, outside \<open>completed\<close> and \<open>failed\<close>, passes the request model,
  whose \<open>status\<close> field is typed \<^verbatim>\<open>str\<close> and nothing more; the handler stores the
  row and answers \<open>saved\<close>.
\<close>

theorem status_outside_enum_is_stored:
  "SaveSummaryRequest pending_body =
     Inr \<lparr>rq_document_id = ''doc-1'', rq_filename = ''hello.txt'', rq_summary = ''draft'',
          rq_status = ''pending''\<rparr> \<and>
   post_save_summary_to_db example_world pending_body =
     (Inr \<lparr>res_document_id = ''doc-1'', res_filename = ''hello.txt'', res_status = ''pending'',
           saved = True\<rparr>,
      example_world\<lparr>db := Some
        [\<lparr>document_id = ''doc-1'', row_filename = ''hello.txt'', summary = ''draft'',
          status = ''pending''\<rparr>]\<rparr>)"
  by (simp add: post_save_summary_to_db_def SaveSummaryRequest_def str_field_def pending_body_def
      save_summary_to_db_def sql_insert_def example_world_def)

end
